theory Spec2Isabelle
  imports Main "HOL-Library.AList" "HOL-Library.Sublist"
begin

section \<open>JavaScript values and React elements\<close>

text \<open>
  The component file \<open>packages/select/src/select.tsx\<close> builds React element descriptions
  from property objects. A property object is an association list from names to values
  (insertion order kept, as a JavaScript object keeps it); looking a name up that is not
  there gives \<open>undefined\<close>. A React element is its type, its \<open>ref\<close> and its property object.
  Functions and ref handles are opaque and only carried around; the numbers that occur
  are integers; element keys are not used by the components and are left out.
\<close>

datatype jsval =
    VUndefined
  | VNull
  | VBool bool
  | VNum int
  | VStr string
  | VFun nat
  | VRef nat
  | VArr "jsval list"
  | VObj "(string \<times> jsval) list"
  | VElem eltype jsval "(string \<times> jsval) list"
and eltype =
    Host string
  | Chakra string
  | Styled string "(string \<times> jsval) list"
  | Component string

type_synonym props = "(string \<times> jsval) list"

text \<open>\<open>obj[k]\<close>: the value stored under \<open>k\<close>, \<open>undefined\<close> when the object has no such key.\<close>

definition get :: "props \<Rightarrow> string \<Rightarrow> jsval" where
  "get obj k = (case map_of obj k of None \<Rightarrow> VUndefined | Some v \<Rightarrow> v)"

text \<open>JavaScript's \<open>ToBoolean\<close>.\<close>

fun truthy :: "jsval \<Rightarrow> bool" where
  "truthy VUndefined = False"
| "truthy VNull = False"
| "truthy (VBool b) = b"
| "truthy (VNum n) = (n \<noteq> 0)"
| "truthy (VStr s) = (s \<noteq> [])"
| "truthy _ = True"

text \<open>\<open>a && b\<close>: the left operand when it is falsy, the right operand otherwise.\<close>

definition js_and :: "jsval \<Rightarrow> jsval \<Rightarrow> jsval" where
  "js_and a b = (if truthy a then b else a)"

text \<open>
  The own enumerable properties an object spread \<open>{...v}\<close> copies. Spreading \<open>undefined\<close>,
  \<open>null\<close>, a boolean or a number copies nothing. Only plain objects are spread by the
  component (the property types exclude strings, arrays and elements there).
\<close>

fun own_props :: "jsval \<Rightarrow> props" where
  "own_props (VObj obj) = obj"
| "own_props _ = []"

text \<open>\<open>Object.keys(obj)\<close>: the names of the object, each once.\<close>

definition keys :: "props \<Rightarrow> string list" where
  "keys obj = remdups (map fst obj)"

text \<open>
  \<open>{...base, ...ext}\<close>: for every key of \<open>ext\<close> in turn, the value \<open>ext\<close> has there is
  assigned; a later write wins.
\<close>

definition spread :: "props \<Rightarrow> props \<Rightarrow> props" where
  "spread base ext = foldl (\<lambda>acc k. AList.update k (get ext k) acc) base (keys ext)"

text \<open>
  Rest destructuring \<open>const {a, b, ...rest} = obj\<close>: \<open>rest\<close> is \<open>obj\<close> without the named keys.
\<close>

definition omit :: "string list \<Rightarrow> props \<Rightarrow> props" where
  "omit ks obj = filter (\<lambda>(k, v). k \<notin> set ks) obj"

text \<open>
  The attribute list of a JSX tag, read left to right: \<open>name={v}\<close> assigns one key (also
  when \<open>v\<close> is \<open>undefined\<close>), \<open>{...v}\<close> spreads an object.
\<close>

datatype attr = Attr string jsval | Spread jsval

fun jsx_step :: "props \<Rightarrow> attr \<Rightarrow> props" where
  "jsx_step acc (Attr k v) = AList.update k v acc"
| "jsx_step acc (Spread v) = spread acc (own_props v)"

definition jsx :: "attr list \<Rightarrow> props" where
  "jsx attrs = foldl jsx_step [] attrs"

text \<open>
  \<open>React.createElement(type, config, ...children)\<close>: the reserved names are taken out of
  the property object, \<open>config.ref\<close> becomes the element's ref (\<open>null\<close> when it is
  \<open>undefined\<close>), one child argument is stored as \<open>props.children\<close>, several as an array,
  none leaves \<open>props.children\<close> as the configuration has it.
\<close>

definition reserved :: "string list" where
  "reserved = [''key'', ''ref'', ''__self'', ''__source'']"

definition createElement :: "eltype \<Rightarrow> props \<Rightarrow> jsval list \<Rightarrow> jsval" where
  "createElement ty config children =
     (let ref = (if get config ''ref'' = VUndefined then VNull else get config ''ref'');
          props0 = omit reserved config;
          props1 = (case children of
                      [] \<Rightarrow> props0
                    | [c] \<Rightarrow> AList.update ''children'' c props0
                    | _ \<Rightarrow> AList.update ''children'' (VArr children) props0)
      in VElem ty ref props1)"

datatype error = NotAnElement

text \<open>
  \<open>React.cloneElement(element, config)\<close>: the original properties overwritten by the
  configuration's, the original type, and the original ref unless the configuration has
  one. \<open>null\<close> and \<open>undefined\<close> make React throw; any other value that is not an element
  yields an element without a type, which the runtime rejects when it renders. Both are
  the error here.
\<close>

fun cloneElement :: "jsval \<Rightarrow> props \<Rightarrow> error + jsval" where
  "cloneElement (VElem ty ref ps) config =
     Inr (VElem ty (if get config ''ref'' = VUndefined then ref else get config ''ref'')
            (spread ps (omit reserved config)))"
| "cloneElement _ config = Inl NotAnElement"

text \<open>The type, the property object and one property of an element.\<close>

fun type_of :: "jsval \<Rightarrow> eltype option" where
  "type_of (VElem ty ref ps) = Some ty"
| "type_of _ = None"

fun props_of :: "jsval \<Rightarrow> props" where
  "props_of (VElem ty ref ps) = ps"
| "props_of _ = []"

definition el_prop :: "jsval \<Rightarrow> string \<Rightarrow> jsval" where
  "el_prop el k = get (props_of el) k"

text \<open>
  The nodes React renders for a \<open>children\<close> value: arrays are flattened, and \<open>undefined\<close>,
  \<open>null\<close> and booleans render nothing. A string renders a text node, the empty string an
  empty text node.
\<close>

fun child_nodes :: "jsval \<Rightarrow> jsval list" where
  "child_nodes (VArr xs) = concat (map child_nodes xs)"
| "child_nodes VUndefined = []"
| "child_nodes VNull = []"
| "child_nodes (VBool b) = []"
| "child_nodes v = [v]"

text \<open>
  React DOM writes a boolean attribute such as \<open>disabled\<close> on the node when the property
  is truthy (a function is dropped).
\<close>

fun boolean_attr :: "jsval \<Rightarrow> bool" where
  "boolean_attr (VFun f) = False"
| "boolean_attr v = truthy v"

definition carries_disabled :: "jsval \<Rightarrow> bool" where
  "carries_disabled el = boolean_attr (el_prop el ''disabled'')"

section \<open>Collaborators from other packages\<close>

text \<open>
  The hooks and constants imported from \<open>@chakra-ui/form-control\<close> and
  \<open>@chakra-ui/system\<close> are parameters: \<open>useFormControl\<close> maps the properties it is given
  to an attribute set (reading the form context around the component), \<open>useStyleConfig\<close>
  maps a component name and properties to the style slots of the theme,
  \<open>layoutPropNames\<close> is the list of layout property names and \<open>themingPropNames\<close> the
  names that \<open>omitThemingProps\<close> strips.
\<close>

record env =
  useFormControl :: "props \<Rightarrow> props"
  useStyleConfig :: "string \<Rightarrow> props \<Rightarrow> props"
  layoutPropNames :: "string list"
  themingPropNames :: "string list"

text \<open>
  Modelled from the spec: \<open>omitThemingProps\<close> of \<open>@chakra-ui/system\<close>, which is not among
  the sources. The spec: a "strip theming properties" utility that removes
  style-selection-only properties before forwarding the remaining ones downward.
\<close>

definition omitThemingProps :: "env \<Rightarrow> props \<Rightarrow> props" where
  "omitThemingProps e ps = omit (themingPropNames e) ps"

text \<open>
  Modelled from the spec: \<open>split\<close> of \<open>@chakra-ui/utils\<close>, which is not among the sources.
  The spec: a split utility partitioning an input property mapping into (matching,
  non-matching) subsets for a list of recognised names.
\<close>

definition split :: "props \<Rightarrow> string list \<Rightarrow> props \<times> props" where
  "split obj ks =
     (filter (\<lambda>(k, v). k \<in> set ks) obj, filter (\<lambda>(k, v). k \<notin> set ks) obj)"

text \<open>
  \<open>Array.prototype.join\<close> on class names. Class names are strings; another truthy value
  has no model here and contributes the empty string.
\<close>

fun class_text :: "jsval \<Rightarrow> string" where
  "class_text (VStr s) = s"
| "class_text _ = []"

fun join :: "string \<Rightarrow> string list \<Rightarrow> string" where
  "join sep [] = []"
| "join sep [x] = x"
| "join sep (x # y # ys) = x @ sep @ join sep (y # ys)"

text \<open>
  Modelled from the spec: \<open>cx\<close> of \<open>@chakra-ui/utils\<close>, which is not among the sources.
  The spec: the class always includes the fixed base token, concatenated with any
  caller-supplied class. So the class names that are given (truthy) are joined by one
  space, in argument order.
\<close>

definition cx :: "jsval list \<Rightarrow> jsval" where
  "cx classNames = VStr (join '' '' (map class_text (filter truthy classNames)))"

text \<open>The tokens of a class attribute: its maximal runs of characters other than a space.\<close>

fun split_spaces :: "string \<Rightarrow> string list" where
  "split_spaces [] = [[]]"
| "split_spaces (c # cs) =
     (if c = CHR '' '' then [] # split_spaces cs
      else (case split_spaces cs of [] \<Rightarrow> [[c]] | w # ws \<Rightarrow> (c # w) # ws))"

definition class_tokens :: "string \<Rightarrow> string list" where
  "class_tokens s = filter (\<lambda>w. w \<noteq> []) (split_spaces s)"

section \<open>The components of select.tsx\<close>

subsection \<open>SelectField\<close>

text \<open>The placeholder option \<open><option value="">{placeholder}</option>\<close>.\<close>

definition placeholder_option :: "jsval \<Rightarrow> jsval" where
  "placeholder_option placeholder =
     createElement (Host ''option'') (jsx [Attr ''value'' (VStr [])]) [placeholder]"

definition SelectField :: "env \<Rightarrow> props \<Rightarrow> jsval \<Rightarrow> jsval" where
  "SelectField e props ref =
     (let children = get props ''children'';
          placeholder = get props ''placeholder'';
          className = get props ''className'';
          isDisabled = get props ''isDisabled'';
          rest = omit [''children'', ''placeholder'', ''className'', ''isDisabled''] props;
          select = useFormControl e rest
      in createElement (Chakra ''select'')
           (jsx [Spread (VObj select),
                 Spread (VObj rest),
                 Attr ''ref'' ref,
                 Attr ''className'' (cx [VStr ''chakra-select'', className]),
                 Attr ''disabled'' isDisabled])
           [js_and placeholder (placeholder_option placeholder), children])"

subsection \<open>Select\<close>

definition Select :: "env \<Rightarrow> props \<Rightarrow> jsval \<Rightarrow> jsval" where
  "Select e props ref =
     (let styles = useStyleConfig e ''Select'' props;
          p = omitThemingProps e props;
          rootProps = get p ''rootProps'';
          placeholder = get p ''placeholder'';
          icon = get p ''icon'';
          color = get p ''color'';
          rest = omit [''rootProps'', ''placeholder'', ''icon'', ''color''] p;
          (layoutProps, otherProps) = split rest (layoutPropNames e)
      in createElement (Chakra ''div'')
           (jsx [Attr ''className'' (VStr ''chakra-select__wrapper''),
                 Attr ''__css'' (VObj [(''width'', VStr ''100%''),
                                       (''position'', VStr ''relative''),
                                       (''color'', color)]),
                 Spread (VObj layoutProps),
                 Spread rootProps])
           [createElement (Component ''SelectField'')
              (jsx [Attr ''ref'' ref,
                    Attr ''placeholder'' placeholder,
                    Spread (VObj otherProps),
                    Attr ''__css'' (get styles ''field'')])
              [get props ''children''],
            createElement (Component ''SelectIcon'')
              (jsx [Attr ''data-disabled'' (get props ''isDisabled''),
                    Attr ''children'' icon,
                    Attr ''color'' color,
                    Attr ''__css'' (get styles ''icon'')])
              []])"

subsection \<open>DefaultIcon, IconWrapper and SelectIcon\<close>

definition DefaultIcon :: "props \<Rightarrow> jsval" where
  "DefaultIcon props =
     createElement (Host ''svg'')
       (jsx [Attr ''viewBox'' (VStr ''0 0 24 24''), Spread (VObj props)])
       [createElement (Host ''path'')
          (jsx [Attr ''fill'' (VStr ''currentColor''),
                Attr ''d'' (VStr ''M16.59 8.59L12 13.17 7.41 8.59 6 10l6 6 6-6z'')])
          []]"

definition IconWrapper :: eltype where
  "IconWrapper =
     Styled ''div''
       [(''baseStyle'',
         VObj [(''position'', VStr ''absolute''),
               (''display'', VStr ''inline-flex''),
               (''width'', VStr ''1.5rem''),
               (''height'', VStr ''100%''),
               (''alignItems'', VStr ''center''),
               (''justifyContent'', VStr ''center''),
               (''right'', VStr ''0.5rem''),
               (''pointerEvents'', VStr ''none''),
               (''zIndex'', VNum 2),
               (''top'', VStr ''50%''),
               (''transform'', VStr ''translateY(-50%)'')])]"

text \<open>The overrides that \<open>SelectIcon\<close> forces on the icon it clones.\<close>

definition icon_overrides :: props where
  "icon_overrides =
     [(''role'', VStr ''presentation''),
      (''className'', VStr ''chakra-select__icon''),
      (''focusable'', VBool False),
      (''aria-hidden'', VBool True),
      (''style'', VObj [(''width'', VStr ''1em''),
                        (''height'', VStr ''1em''),
                        (''color'', VStr ''currentColor'')])]"

definition SelectIcon :: "props \<Rightarrow> error + jsval" where
  "SelectIcon props =
     (let children = (if get props ''children'' = VUndefined
                      then createElement (Component ''DefaultIcon'') [] []
                      else get props ''children'');
          rest = omit [''children''] props
      in case cloneElement children icon_overrides of
           Inl err \<Rightarrow> Inl err
         | Inr clone \<Rightarrow>
             Inr (createElement IconWrapper
                    (jsx [Spread (VObj rest),
                          Attr ''className'' (VStr ''chakra-select__icon-wrapper''),
                          Attr ''children'' clone])
                    []))"

subsection \<open>One rendering step of the React runtime\<close>

text \<open>
  React calls the function of a component element with the element's properties (and, for
  a \<open>forwardRef\<close> component, its ref). Elements of other types are left as they are.
\<close>

definition render :: "env \<Rightarrow> jsval \<Rightarrow> error + jsval" where
  "render e el =
     (case el of
        VElem (Component name) ref ps \<Rightarrow>
          (if name = ''Select'' then Inr (Select e ps ref)
           else if name = ''SelectField'' then Inr (SelectField e ps ref)
           else if name = ''SelectIcon'' then SelectIcon ps
           else if name = ''DefaultIcon'' then Inr (DefaultIcon ps)
           else Inr el)
      | _ \<Rightarrow> Inr el)"

text \<open>The two children of the wrapper that \<open>Select\<close> returns.\<close>

definition field_element :: "jsval \<Rightarrow> jsval" where
  "field_element wrapper = (case el_prop wrapper ''children'' of VArr [f, i] \<Rightarrow> f | _ \<Rightarrow> VUndefined)"

definition icon_element :: "jsval \<Rightarrow> jsval" where
  "icon_element wrapper = (case el_prop wrapper ''children'' of VArr [f, i] \<Rightarrow> i | _ \<Rightarrow> VUndefined)"

section \<open>Named parts of the components\<close>

text \<open>
  The properties that \<open>SelectField\<close> has left after \<open>children\<close>, \<open>placeholder\<close>,
  \<open>className\<close> and \<open>isDisabled\<close> are taken out (\<open>rest\<close> in the source).
\<close>

definition SelectField_rest :: "props \<Rightarrow> props" where
  "SelectField_rest props =
     omit [''children'', ''placeholder'', ''className'', ''isDisabled''] props"

text \<open>
  The properties that \<open>Select\<close> has left after the theming properties and \<open>rootProps\<close>,
  \<open>placeholder\<close>, \<open>icon\<close> and \<open>color\<close> are taken out (\<open>rest\<close> in the source), the two
  halves \<open>split\<close> makes of them (\<open>layoutProps\<close> and \<open>otherProps\<close>), and the entries that
  \<open>{...rootProps}\<close> spreads.
\<close>

definition Select_rest :: "env \<Rightarrow> props \<Rightarrow> props" where
  "Select_rest e props =
     omit [''rootProps'', ''placeholder'', ''icon'', ''color''] (omitThemingProps e props)"

definition Select_layoutProps :: "env \<Rightarrow> props \<Rightarrow> props" where
  "Select_layoutProps e props = fst (split (Select_rest e props) (layoutPropNames e))"

definition Select_otherProps :: "env \<Rightarrow> props \<Rightarrow> props" where
  "Select_otherProps e props = snd (split (Select_rest e props) (layoutPropNames e))"

definition Select_rootProps :: "env \<Rightarrow> props \<Rightarrow> props" where
  "Select_rootProps e props = own_props (get (omitThemingProps e props) ''rootProps'')"

text \<open>
  The property types of the source: \<open>icon\<close> is a React element when it is given, and
  \<open>rootProps\<close> is a property object when it is given.
\<close>

fun is_element :: "jsval \<Rightarrow> bool" where
  "is_element (VElem ty ref ps) = True"
| "is_element _ = False"

fun object_or_absent :: "jsval \<Rightarrow> bool" where
  "object_or_absent VUndefined = True"
| "object_or_absent (VObj obj) = True"
| "object_or_absent _ = False"

section \<open>A concrete environment and concrete elements\<close>

text \<open>
  A form control that is disabled and required around the select, a theme with a height
  for the field and a font size for the icon, four layout names and the four theming
  names. It is the environment of the examples below.
\<close>

definition sample_env :: env where
  "sample_env =
     \<lparr>useFormControl = (\<lambda>ps. [(''disabled'', VBool True), (''required'', VBool True),
                               (''aria-required'', VBool True)]),
      useStyleConfig = (\<lambda>name ps. [(''field'', VObj [(''height'', VStr ''2.5rem'')]),
                                    (''icon'', VObj [(''fontSize'', VStr ''1.25rem'')])]),
      layoutPropNames = [''width'', ''height'', ''margin'', ''position''],
      themingPropNames = [''styleConfig'', ''size'', ''variant'', ''colorScheme'']\<rparr>"

text \<open>The option \<open><option value="a">A</option>\<close>.\<close>

definition option_a :: jsval where
  "option_a = VElem (Host ''option'') VNull [(''value'', VStr ''a''), (''children'', VStr ''A'')]"

text \<open>A caller's icon whose own attributes disagree with every override.\<close>

definition custom_icon :: jsval where
  "custom_icon =
     VElem (Component ''CustomIcon'') VNull
       [(''role'', VStr ''img''), (''title'', VStr ''open''), (''aria-hidden'', VBool False),
        (''focusable'', VBool True), (''className'', VStr ''mine''),
        (''style'', VObj [(''width'', VStr ''2em'')])]"

section \<open>Property objects: lookup lemmas\<close>

lemma map_of_assign_keys:
  "map_of (foldl (\<lambda>acc k. AList.update k (get ext k) acc) base ks) x
     = (if x \<in> set ks then Some (get ext x) else map_of base x)"
  by (induction ks arbitrary: base) (auto simp: update_conv')

lemma map_of_spread: "map_of (spread base ext) = map_of base ++ map_of ext"
proof (rule ext)
  fix x
  show "map_of (spread base ext) x = (map_of base ++ map_of ext) x"
  proof (cases "map_of ext x")
    case None
    then have "x \<notin> set (keys ext)"
      by (simp add: keys_def map_of_eq_None_iff)
    with None show ?thesis
      by (simp add: spread_def map_of_assign_keys map_add_def)
  next
    case (Some v)
    then have "x \<in> set (keys ext)"
      by (auto simp: keys_def dest: map_of_SomeD intro: rev_image_eqI)
    then have "map_of (spread base ext) x = Some (get ext x)"
      by (simp add: spread_def map_of_assign_keys)
    with Some show ?thesis
      by (simp add: map_add_def get_def)
  qed
qed

lemma map_of_omit: "map_of (omit ks obj) k = (if k \<in> set ks then None else map_of obj k)"
  unfolding omit_def by (induction obj) auto

lemma get_spread:
  "get (spread base ext) k = (case map_of ext k of None \<Rightarrow> get base k | Some v \<Rightarrow> v)"
  by (simp add: get_def map_of_spread map_add_def split: option.splits)


lemma map_of_split_fst:
  "map_of (fst (split obj ks)) k = (if k \<in> set ks then map_of obj k else None)"
  unfolding split_def by (induction obj) auto

lemma map_of_split_snd:
  "map_of (snd (split obj ks)) k = (if k \<in> set ks then None else map_of obj k)"
  unfolding split_def by (induction obj) auto

section \<open>Elements: lookup lemmas\<close>

lemma props_of_createElement:
  "map_of (props_of (createElement ty config cs)) k =
     (if k = ''children'' \<and> cs \<noteq> [] then Some (case cs of [c] \<Rightarrow> c | _ \<Rightarrow> VArr cs)
      else if k \<in> set reserved then None else map_of config k)"
  by (cases cs; cases "tl cs")
     (auto simp: createElement_def Let_def update_conv' map_of_omit reserved_def)

lemma type_of_createElement: "type_of (createElement ty config cs) = Some ty"
  by (simp add: createElement_def Let_def)

subsection \<open>SelectField\<close>

lemma SelectField_lookup:
  "map_of (props_of (SelectField e props ref)) k =
     (if k = ''children''
        then Some (VArr [js_and (get props ''placeholder'')
                           (placeholder_option (get props ''placeholder'')),
                         get props ''children''])
      else if k \<in> set reserved then None
      else if k = ''disabled'' then Some (get props ''isDisabled'')
      else if k = ''className'' then Some (cx [VStr ''chakra-select'', get props ''className''])
      else case map_of (SelectField_rest props) k of
             Some v \<Rightarrow> Some v
           | None \<Rightarrow> map_of (useFormControl e (SelectField_rest props)) k)"
  unfolding SelectField_rest_def
  by (simp add: SelectField_def Let_def props_of_createElement jsx_def update_conv' map_of_spread
        reserved_def map_add_def)

lemma SelectField_rest_lookup:
  "map_of (SelectField_rest props) k =
     (if k \<in> {''children'', ''placeholder'', ''className'', ''isDisabled''} then None
      else map_of props k)"
  by (simp add: SelectField_rest_def map_of_omit)

lemma SelectField_children:
  "el_prop (SelectField e props ref) ''children'' =
     VArr [js_and (get props ''placeholder'') (placeholder_option (get props ''placeholder'')),
           get props ''children'']"
  by (simp add: el_prop_def get_def SelectField_lookup)

lemma SelectField_className_eq:
  "el_prop (SelectField e props ref) ''className''
     = cx [VStr ''chakra-select'', get props ''className'']"
  by (simp add: el_prop_def get_def SelectField_lookup reserved_def)

lemma placeholder_option_eq:
  "placeholder_option v = VElem (Host ''option'') VNull [(''value'', VStr []), (''children'', v)]"
  by (simp add: placeholder_option_def createElement_def jsx_def Let_def get_def omit_def
        reserved_def)

subsection \<open>Select\<close>

lemma Select_rest_lookup:
  "map_of (Select_rest e props) k =
     (if k \<in> {''rootProps'', ''placeholder'', ''icon'', ''color''} \<or> k \<in> set (themingPropNames e)
      then None else map_of props k)"
  by (simp add: Select_rest_def omitThemingProps_def map_of_omit)

lemma Select_layoutProps_lookup:
  "map_of (Select_layoutProps e props) k =
     (if k \<in> set (layoutPropNames e) then map_of (Select_rest e props) k else None)"
  by (simp add: Select_layoutProps_def map_of_split_fst)

lemma Select_otherProps_lookup:
  "map_of (Select_otherProps e props) k =
     (if k \<in> set (layoutPropNames e) then None else map_of (Select_rest e props) k)"
  by (simp add: Select_otherProps_def map_of_split_snd)

lemma Select_children:
  "el_prop (Select e props ref) ''children'' =
     VArr [createElement (Component ''SelectField'')
              (jsx [Attr ''ref'' ref,
                    Attr ''placeholder'' (get (omitThemingProps e props) ''placeholder''),
                    Spread (VObj (Select_otherProps e props)),
                    Attr ''__css'' (get (useStyleConfig e ''Select'' props) ''field'')])
              [get props ''children''],
            createElement (Component ''SelectIcon'')
              (jsx [Attr ''data-disabled'' (get props ''isDisabled''),
                    Attr ''children'' (get (omitThemingProps e props) ''icon''),
                    Attr ''color'' (get (omitThemingProps e props) ''color''),
                    Attr ''__css'' (get (useStyleConfig e ''Select'' props) ''icon'')])
              []]"
  by (simp add: Select_def Let_def case_prod_beta el_prop_def get_def props_of_createElement
        Select_rest_def Select_otherProps_def)

lemma Select_wrapper_lookup:
  "k \<noteq> ''children'' \<Longrightarrow>
   map_of (props_of (Select e props ref)) k =
     (if k \<in> set reserved then None
      else case map_of (Select_rootProps e props) k of
             Some w \<Rightarrow> Some w
           | None \<Rightarrow>
              (case map_of (Select_layoutProps e props) k of
                 Some v \<Rightarrow> Some v
               | None \<Rightarrow>
                  (if k = ''__css''
                   then Some (VObj [(''width'', VStr ''100%''), (''position'', VStr ''relative''),
                                    (''color'', get (omitThemingProps e props) ''color'')])
                   else if k = ''className'' then Some (VStr ''chakra-select__wrapper'')
                   else None)))"
  by (simp add: Select_def Let_def case_prod_beta props_of_createElement jsx_def update_conv'
        map_of_spread Select_rest_def Select_rootProps_def Select_layoutProps_def map_add_def
        split: option.splits)

lemma Select_field_lookup:
  "map_of (props_of (field_element (Select e props ref))) k =
     (if k = ''children'' then Some (get props ''children'')
      else if k \<in> set reserved then None
      else if k = ''__css'' then Some (get (useStyleConfig e ''Select'' props) ''field'')
      else case map_of (Select_otherProps e props) k of
             Some v \<Rightarrow> Some v
           | None \<Rightarrow> (if k = ''placeholder''
                       then Some (get (omitThemingProps e props) ''placeholder'') else None))"
  by (simp add: field_element_def Select_children props_of_createElement jsx_def update_conv'
        map_of_spread reserved_def map_add_def split: option.splits)

lemma Select_icon_element:
  "icon_element (Select e props ref) =
     VElem (Component ''SelectIcon'') VNull
       [(''data-disabled'', get props ''isDisabled''),
        (''children'', get (omitThemingProps e props) ''icon''),
        (''color'', get (omitThemingProps e props) ''color''),
        (''__css'', get (useStyleConfig e ''Select'' props) ''icon'')]"
  by (simp add: icon_element_def Select_children createElement_def jsx_def Let_def get_def
        omit_def reserved_def)

subsection \<open>SelectIcon and DefaultIcon\<close>

lemma omit_reserved_overrides: "omit reserved icon_overrides = icon_overrides"
  by (simp add: omit_def reserved_def icon_overrides_def)

lemma cloneElement_overrides:
  "cloneElement (VElem ty r ps) icon_overrides = Inr (VElem ty r (spread ps icon_overrides))"
  by (simp add: omit_reserved_overrides) (simp add: get_def icon_overrides_def)

lemma default_icon_element:
  "createElement (Component ''DefaultIcon'') [] [] = VElem (Component ''DefaultIcon'') VNull []"
  by (simp add: createElement_def get_def omit_def)

lemma SelectIcon_element:
  "SelectIcon props =
     (case (if get props ''children'' = VUndefined then VElem (Component ''DefaultIcon'') VNull []
            else get props ''children'') of
        VElem ty r ps \<Rightarrow>
          Inr (createElement IconWrapper
                 (jsx [Spread (VObj (omit [''children''] props)),
                       Attr ''className'' (VStr ''chakra-select__icon-wrapper''),
                       Attr ''children'' (VElem ty r (spread ps icon_overrides))])
                 [])
      | _ \<Rightarrow> Inl NotAnElement)"
  unfolding SelectIcon_def Let_def default_icon_element
  by (cases "get props ''children''")
     (simp_all add: cloneElement_overrides del: cloneElement.simps(1))

lemma IconWrapper_lookup:
  "map_of (props_of (createElement IconWrapper
       (jsx [Spread (VObj rest), Attr ''className'' c, Attr ''children'' icon]) [])) k =
     (if k \<in> set reserved then None
      else if k = ''children'' then Some icon
      else if k = ''className'' then Some c
      else map_of rest k)"
  by (simp add: props_of_createElement jsx_def update_conv' map_of_spread)

lemma SelectIcon_wrapper_lookup:
  assumes "SelectIcon ps = Inr w" and "k \<noteq> ''children''" and "k \<noteq> ''className''"
  shows "map_of (props_of w) k = (if k \<in> set reserved then None else map_of ps k)"
proof -
  define given where "given = (if get ps ''children'' = VUndefined
      then createElement (Component ''DefaultIcon'') [] [] else get ps ''children'')"
  show ?thesis
  proof (cases "cloneElement given icon_overrides")
    case (Inl err)
    with assms(1) show ?thesis
      by (simp add: SelectIcon_def Let_def given_def [symmetric])
  next
    case (Inr clone)
    with assms(1) have "w = createElement IconWrapper
        (jsx [Spread (VObj (omit [''children''] ps)),
              Attr ''className'' (VStr ''chakra-select__icon-wrapper''),
              Attr ''children'' clone]) []"
      by (simp add: SelectIcon_def Let_def given_def [symmetric])
    with assms(2,3) show ?thesis
      by (simp add: IconWrapper_lookup map_of_omit)
  qed
qed

lemma overrides_lookup:
  "el_prop (VElem ty r (spread ps icon_overrides)) k =
     (case map_of icon_overrides k of None \<Rightarrow> get ps k | Some v \<Rightarrow> v)"
  by (simp add: el_prop_def get_spread)

lemma DefaultIcon_lookup:
  "k \<noteq> ''children'' \<Longrightarrow> k \<notin> set reserved \<Longrightarrow> k \<noteq> ''viewBox'' \<Longrightarrow> map_of ps k = Some v \<Longrightarrow>
   el_prop (DefaultIcon ps) k = v"
  by (simp add: DefaultIcon_def el_prop_def get_def props_of_createElement jsx_def update_conv'
        map_of_spread)

lemma type_of_DefaultIcon: "type_of (DefaultIcon ps) = Some (Host ''svg'')"
  by (simp add: DefaultIcon_def type_of_createElement)

lemma render_SelectIcon: "render e (VElem (Component ''SelectIcon'') r ps) = SelectIcon ps"
  by (simp add: render_def)

lemma render_DefaultIcon:
  "render e (VElem (Component ''DefaultIcon'') r ps) = Inr (DefaultIcon ps)"
  by (simp add: render_def)

section \<open>Class tokens\<close>

lemma split_spaces_nonempty: "split_spaces s \<noteq> []"
  by (induction s) (auto split: list.splits)

lemma split_spaces_append:
  "split_spaces (a @ CHR '' '' # s) = split_spaces a @ split_spaces s"
  by (induction a) (auto simp: split_spaces_nonempty split: list.splits)

lemma class_tokens_append:
  "class_tokens (a @ CHR '' '' # s) = class_tokens a @ class_tokens s"
  by (simp add: class_tokens_def split_spaces_append)

lemma class_tokens_base: "class_tokens ''chakra-select'' = [''chakra-select'']"
  by (simp add: class_tokens_def)

lemma class_tokens_Nil: "class_tokens [] = []"
  by (simp add: class_tokens_def)

section \<open>SelectField: the disabled attribute\<close>

text \<open>
  C1. For \<open>isDisabled\<close> among \<open>true\<close>, \<open>false\<close> and \<open>undefined\<close>, the select element that
  \<open>SelectField\<close> renders has the \<open>disabled\<close> property equal to \<open>isDisabled\<close>, so it carries the
  disabled attribute exactly when \<open>isDisabled\<close> is \<open>true\<close>, whatever attribute set the
  form-control hook returns (the environment is arbitrary).
\<close>

theorem SelectField_disabled:
  assumes "get props ''isDisabled'' \<in> {VBool True, VBool False, VUndefined}"
  shows "el_prop (SelectField e props ref) ''disabled'' = get props ''isDisabled'' \<and>
         (carries_disabled (SelectField e props ref) \<longleftrightarrow> get props ''isDisabled'' = VBool True)"
proof -
  have d: "el_prop (SelectField e props ref) ''disabled'' = get props ''isDisabled''"
    by (simp add: el_prop_def get_def SelectField_lookup reserved_def)
  from assms show ?thesis
    unfolding carries_disabled_def d by auto
qed

theorem SelectField_disabled_witness:
  "get (useFormControl sample_env []) ''disabled'' = VBool True \<and>
   \<not> carries_disabled (SelectField sample_env [(''isDisabled'', VBool False)] VNull) \<and>
   \<not> carries_disabled (SelectField sample_env [] VNull) \<and>
   carries_disabled (SelectField sample_env [(''isDisabled'', VBool True)] VNull)"
  using SelectField_disabled [of "[(''isDisabled'', VBool False)]" sample_env VNull]
        SelectField_disabled [of "[]" sample_env VNull]
        SelectField_disabled [of "[(''isDisabled'', VBool True)]" sample_env VNull]
  by (simp add: get_def sample_env_def)

section \<open>SelectField: the placeholder option\<close>

text \<open>
  C2. When \<open>placeholder\<close> is a non-empty string \<open>s\<close>, the children of the rendered select
  are the array of the option element with the empty value and the label \<open>s\<close>, and the
  caller's children: the rendered nodes are that one option followed by the nodes of the
  caller's children. When \<open>placeholder\<close> is the empty string or \<open>undefined\<close>, the first
  entry of the array is the placeholder value itself, not an option: for \<open>undefined\<close> the
  rendered nodes are the nodes of the caller's children, for the empty string an empty
  text node comes before them, and in both cases the elements among the rendered nodes
  are exactly the elements among the caller's nodes, so no option is added.
\<close>

theorem SelectField_placeholder:
  "(get props ''placeholder'' = VStr s \<and> s \<noteq> [] \<longrightarrow>
      el_prop (SelectField e props ref) ''children''
        = VArr [VElem (Host ''option'') VNull [(''value'', VStr []), (''children'', VStr s)],
                get props ''children''] \<and>
      child_nodes (el_prop (SelectField e props ref) ''children'')
        = VElem (Host ''option'') VNull [(''value'', VStr []), (''children'', VStr s)]
          # child_nodes (get props ''children'')) \<and>
   (get props ''placeholder'' = VStr [] \<longrightarrow>
      el_prop (SelectField e props ref) ''children'' = VArr [VStr [], get props ''children''] \<and>
      child_nodes (el_prop (SelectField e props ref) ''children'')
        = VStr [] # child_nodes (get props ''children'') \<and>
      filter is_element (child_nodes (el_prop (SelectField e props ref) ''children''))
        = filter is_element (child_nodes (get props ''children''))) \<and>
   (get props ''placeholder'' = VUndefined \<longrightarrow>
      el_prop (SelectField e props ref) ''children'' = VArr [VUndefined, get props ''children''] \<and>
      child_nodes (el_prop (SelectField e props ref) ''children'')
        = child_nodes (get props ''children'') \<and>
      filter is_element (child_nodes (el_prop (SelectField e props ref) ''children''))
        = filter is_element (child_nodes (get props ''children'')))"
  by (auto simp: SelectField_children js_and_def placeholder_option_eq)

theorem SelectField_placeholder_witness:
  "child_nodes (el_prop (SelectField sample_env
       [(''placeholder'', VStr ''Choose''), (''children'', option_a)] VNull) ''children'')
     = [VElem (Host ''option'') VNull [(''value'', VStr []), (''children'', VStr ''Choose'')],
        option_a] \<and>
   child_nodes (el_prop (SelectField sample_env
       [(''placeholder'', VStr []), (''children'', option_a)] VNull) ''children'')
     = [VStr [], option_a] \<and>
   filter is_element (child_nodes (el_prop (SelectField sample_env
       [(''placeholder'', VStr []), (''children'', option_a)] VNull) ''children''))
     = [option_a] \<and>
   child_nodes (el_prop (SelectField sample_env [(''children'', option_a)] VNull) ''children'')
     = [option_a]"
  using SelectField_placeholder [of "[(''placeholder'', VStr ''Choose''), (''children'', option_a)]"
          "''Choose''" sample_env VNull]
        SelectField_placeholder [of "[(''placeholder'', VStr []), (''children'', option_a)]"
          "[]" sample_env VNull]
        SelectField_placeholder [of "[(''children'', option_a)]" "[]" sample_env VNull]
  by (simp add: get_def option_a_def)

section \<open>SelectField: form-control attributes and explicit properties\<close>

text \<open>
  C3, as stated, fails: the form control around the select says \<open>required = true\<close>, the
  caller passes \<open>required = false\<close>, and the rendered select has \<open>required = false\<close>. The
  spread of the explicit properties comes after the spread of the form-control attributes.
\<close>

theorem form_control_precedence_counterexample:
  "get (useFormControl sample_env (SelectField_rest [(''required'', VBool False)])) ''required''
     = VBool True \<and>
   get (SelectField_rest [(''required'', VBool False)]) ''required'' = VBool False \<and>
   el_prop (SelectField sample_env [(''required'', VBool False)] VNull) ''required'' = VBool False"
  by (simp add: sample_env_def SelectField_rest_def get_def omit_def el_prop_def SelectField_lookup
        reserved_def)

text \<open>
  C3, amended. For every name other than \<open>disabled\<close> and React's reserved names: an
  explicitly passed property (one that \<open>SelectField\<close> has left after \<open>children\<close>,
  \<open>placeholder\<close>, \<open>className\<close> and \<open>isDisabled\<close> are taken out) is on the rendered select
  with the caller's value, whatever the form-control attribute set has under that name;
  a form-control attribute is on the rendered select where no explicit property has its
  name and the name is neither \<open>className\<close> nor \<open>children\<close>.
\<close>

theorem SelectField_explicit_precedence:
  assumes "k \<notin> set reserved" and "k \<noteq> ''disabled''"
  shows "(map_of (SelectField_rest props) k = Some v \<longrightarrow>
            map_of (props_of (SelectField e props ref)) k = Some v) \<and>
         (map_of (SelectField_rest props) k = None \<and> k \<noteq> ''className'' \<and> k \<noteq> ''children'' \<longrightarrow>
            map_of (props_of (SelectField e props ref)) k
              = map_of (useFormControl e (SelectField_rest props)) k)"
proof (intro conjI impI)
  assume r: "map_of (SelectField_rest props) k = Some v"
  then have "k \<noteq> ''children''" "k \<noteq> ''className''"
    by (auto simp: SelectField_rest_lookup split: if_splits)
  with assms r show "map_of (props_of (SelectField e props ref)) k = Some v"
    by (simp add: SelectField_lookup)
next
  assume "map_of (SelectField_rest props) k = None \<and> k \<noteq> ''className'' \<and> k \<noteq> ''children''"
  with assms show "map_of (props_of (SelectField e props ref)) k
              = map_of (useFormControl e (SelectField_rest props)) k"
    by (simp add: SelectField_lookup)
qed

theorem SelectField_explicit_precedence_witness:
  "map_of (props_of (SelectField sample_env [(''required'', VBool False)] VNull)) ''required''
     = Some (VBool False) \<and>
   map_of (props_of (SelectField sample_env [(''required'', VBool False)] VNull)) ''aria-required''
     = Some (VBool True)"
  using SelectField_explicit_precedence [of "''required''" "[(''required'', VBool False)]"
          "VBool False" sample_env VNull]
        SelectField_explicit_precedence [of "''aria-required''" "[(''required'', VBool False)]"
          "VBool False" sample_env VNull]
  by (simp add: reserved_def SelectField_rest_def omit_def sample_env_def)

section \<open>SelectIcon: the forced overrides\<close>

text \<open>
  C4. When the icon given to \<open>SelectIcon\<close> is an element or absent, \<open>SelectIcon\<close> renders a
  wrapper whose child is the given element (the default glyph when none is given) with
  \<open>role = "presentation"\<close>, \<open>aria-hidden = true\<close>, \<open>focusable = false\<close>, the class
  \<open>chakra-select__icon\<close> and the style \<open>width 1em, height 1em, color currentColor\<close>,
  whatever the given element had under these names. The default glyph renders an \<open>svg\<close>
  that carries the same five.
\<close>

theorem SelectIcon_overrides:
  assumes "get props ''children'' = VUndefined \<or> is_element (get props ''children'')"
  shows "\<exists>wrapper icon.
           SelectIcon props = Inr wrapper \<and>
           el_prop wrapper ''children'' = icon \<and>
           type_of icon = (if get props ''children'' = VUndefined
                           then Some (Component ''DefaultIcon'')
                           else type_of (get props ''children'')) \<and>
           el_prop icon ''role'' = VStr ''presentation'' \<and>
           el_prop icon ''aria-hidden'' = VBool True \<and>
           el_prop icon ''focusable'' = VBool False \<and>
           el_prop icon ''className'' = VStr ''chakra-select__icon'' \<and>
           el_prop icon ''style'' = VObj [(''width'', VStr ''1em''), (''height'', VStr ''1em''),
                                          (''color'', VStr ''currentColor'')] \<and>
           (get props ''children'' = VUndefined \<longrightarrow>
              (\<exists>svg. render e icon = Inr svg \<and>
                 type_of svg = Some (Host ''svg'') \<and>
                 el_prop svg ''role'' = VStr ''presentation'' \<and>
                 el_prop svg ''aria-hidden'' = VBool True \<and>
                 el_prop svg ''focusable'' = VBool False \<and>
                 el_prop svg ''className'' = VStr ''chakra-select__icon'' \<and>
                 el_prop svg ''style'' = VObj [(''width'', VStr ''1em''), (''height'', VStr ''1em''),
                                              (''color'', VStr ''currentColor'')]))"
proof -
  define given where "given = (if get props ''children'' = VUndefined
      then VElem (Component ''DefaultIcon'') VNull [] else get props ''children'')"
  from assms obtain ty r ps where g: "given = VElem ty r ps"
    unfolding given_def by (cases "get props ''children''") auto
  define icon where "icon = VElem ty r (spread ps icon_overrides)"
  define wrapper where "wrapper = createElement IconWrapper
      (jsx [Spread (VObj (omit [''children''] props)),
            Attr ''className'' (VStr ''chakra-select__icon-wrapper''),
            Attr ''children'' icon]) []"
  have w: "SelectIcon props = Inr wrapper"
    using g by (simp add: SelectIcon_element given_def [symmetric] wrapper_def icon_def)
  have c: "el_prop wrapper ''children'' = icon"
    by (simp add: wrapper_def el_prop_def get_def IconWrapper_lookup reserved_def)
  have t: "type_of icon = (if get props ''children'' = VUndefined
             then Some (Component ''DefaultIcon'') else type_of (get props ''children''))"
    using g by (auto simp: icon_def given_def split: if_splits)
  have o: "el_prop icon ''role'' = VStr ''presentation''"
      "el_prop icon ''aria-hidden'' = VBool True"
      "el_prop icon ''focusable'' = VBool False"
      "el_prop icon ''className'' = VStr ''chakra-select__icon''"
      "el_prop icon ''style'' = VObj [(''width'', VStr ''1em''), (''height'', VStr ''1em''),
                                      (''color'', VStr ''currentColor'')]"
    unfolding icon_def overrides_lookup by (simp_all add: icon_overrides_def)
  have d: "\<exists>svg. render e icon = Inr svg \<and>
                 type_of svg = Some (Host ''svg'') \<and>
                 el_prop svg ''role'' = VStr ''presentation'' \<and>
                 el_prop svg ''aria-hidden'' = VBool True \<and>
                 el_prop svg ''focusable'' = VBool False \<and>
                 el_prop svg ''className'' = VStr ''chakra-select__icon'' \<and>
                 el_prop svg ''style'' = VObj [(''width'', VStr ''1em''), (''height'', VStr ''1em''),
                                              (''color'', VStr ''currentColor'')]"
    if u: "get props ''children'' = VUndefined"
  proof -
    from u g have i: "icon = VElem (Component ''DefaultIcon'') VNull (spread [] icon_overrides)"
      by (simp add: given_def icon_def)
    have m: "el_prop (DefaultIcon (spread [] icon_overrides)) k = v"
      if "map_of icon_overrides k = Some v" for k v
    proof (rule DefaultIcon_lookup)
      from that show "map_of (spread [] icon_overrides) k = Some v"
        by (simp add: map_of_spread)
      from that show "k \<noteq> ''children''" "k \<notin> set reserved" "k \<noteq> ''viewBox''"
        by (auto simp: icon_overrides_def reserved_def split: if_splits)
    qed
    have "el_prop (DefaultIcon (spread [] icon_overrides)) ''role'' = VStr ''presentation''"
      "el_prop (DefaultIcon (spread [] icon_overrides)) ''aria-hidden'' = VBool True"
      "el_prop (DefaultIcon (spread [] icon_overrides)) ''focusable'' = VBool False"
      "el_prop (DefaultIcon (spread [] icon_overrides)) ''className'' = VStr ''chakra-select__icon''"
      "el_prop (DefaultIcon (spread [] icon_overrides)) ''style''
         = VObj [(''width'', VStr ''1em''), (''height'', VStr ''1em''),
                 (''color'', VStr ''currentColor'')]"
      by (rule m, simp add: icon_overrides_def)+
    then show ?thesis
      unfolding i render_DefaultIcon using type_of_DefaultIcon by blast
  qed
  from w c t o d show ?thesis by blast
qed

theorem SelectIcon_overrides_witness:
  "SelectIcon [(''data-disabled'', VBool True), (''children'', custom_icon)] =
     Inr (VElem IconWrapper VNull
            [(''data-disabled'', VBool True),
             (''className'', VStr ''chakra-select__icon-wrapper''),
             (''children'',
              VElem (Component ''CustomIcon'') VNull
                [(''role'', VStr ''presentation''), (''title'', VStr ''open''),
                 (''aria-hidden'', VBool True), (''focusable'', VBool False),
                 (''className'', VStr ''chakra-select__icon''),
                 (''style'', VObj [(''width'', VStr ''1em''), (''height'', VStr ''1em''),
                                   (''color'', VStr ''currentColor'')])])]) \<and>
   (\<exists>wrapper. SelectIcon [(''data-disabled'', VBool True)] = Inr wrapper \<and>
      type_of (el_prop wrapper ''children'') = Some (Component ''DefaultIcon'') \<and>
      el_prop (el_prop wrapper ''children'') ''role'' = VStr ''presentation'')"
proof -
  have a: "get [(''data-disabled'', VBool True), (''children'', custom_icon)] ''children'' = VUndefined \<or>
        is_element (get [(''data-disabled'', VBool True), (''children'', custom_icon)] ''children'')"
    by (simp add: get_def custom_icon_def)
  have b: "get [(''data-disabled'', VBool True)] ''children'' = VUndefined \<or>
        is_element (get [(''data-disabled'', VBool True)] ''children'')"
    by (simp add: get_def)
  have 1: "SelectIcon [(''data-disabled'', VBool True), (''children'', custom_icon)] =
     Inr (VElem IconWrapper VNull
            [(''data-disabled'', VBool True),
             (''className'', VStr ''chakra-select__icon-wrapper''),
             (''children'',
              VElem (Component ''CustomIcon'') VNull
                [(''role'', VStr ''presentation''), (''title'', VStr ''open''),
                 (''aria-hidden'', VBool True), (''focusable'', VBool False),
                 (''className'', VStr ''chakra-select__icon''),
                 (''style'', VObj [(''width'', VStr ''1em''), (''height'', VStr ''1em''),
                                   (''color'', VStr ''currentColor'')])])])"
    by (simp add: SelectIcon_def custom_icon_def get_def omit_def reserved_def icon_overrides_def
          spread_def keys_def createElement_def jsx_def Let_def)
  from SelectIcon_overrides [OF b, of sample_env] have 2:
    "\<exists>wrapper. SelectIcon [(''data-disabled'', VBool True)] = Inr wrapper \<and>
      type_of (el_prop wrapper ''children'') = Some (Component ''DefaultIcon'') \<and>
      el_prop (el_prop wrapper ''children'') ''role'' = VStr ''presentation''"
    by (auto simp: get_def)
  from SelectIcon_overrides [OF a, of sample_env] 1 2 show ?thesis by simp
qed

section \<open>Select: layout properties and the other properties\<close>

text \<open>
  C5, as stated, fails at two places of one input. The caller passes \<open>width = "50%"\<close>, a
  layout name, and \<open>rootProps\<close> with \<open>width = "10%"\<close>: the wrapper has \<open>width = "10%"\<close>.
  The caller passes \<open>__css\<close>, not a layout name: the field element has the theme's field
  style under \<open>__css\<close>, not the caller's value.
\<close>

theorem Select_partition_counterexample:
  "map_of (Select_rest sample_env
       [(''width'', VStr ''50%''), (''__css'', VObj [(''color'', VStr ''red'')]),
        (''rootProps'', VObj [(''width'', VStr ''10%'')])]) ''width'' = Some (VStr ''50%'') \<and>
   ''width'' \<in> set (layoutPropNames sample_env) \<and>
   el_prop (Select sample_env
       [(''width'', VStr ''50%''), (''__css'', VObj [(''color'', VStr ''red'')]),
        (''rootProps'', VObj [(''width'', VStr ''10%'')])] VNull) ''width'' = VStr ''10%'' \<and>
   map_of (Select_rest sample_env
       [(''width'', VStr ''50%''), (''__css'', VObj [(''color'', VStr ''red'')]),
        (''rootProps'', VObj [(''width'', VStr ''10%'')])]) ''__css''
     = Some (VObj [(''color'', VStr ''red'')]) \<and>
   ''__css'' \<notin> set (layoutPropNames sample_env) \<and>
   el_prop (field_element (Select sample_env
       [(''width'', VStr ''50%''), (''__css'', VObj [(''color'', VStr ''red'')]),
        (''rootProps'', VObj [(''width'', VStr ''10%'')])] VNull)) ''__css''
     = VObj [(''height'', VStr ''2.5rem'')]"
proof -
  have t: "themingPropNames sample_env = [''styleConfig'', ''size'', ''variant'', ''colorScheme'']"
    and l: "layoutPropNames sample_env = [''width'', ''height'', ''margin'', ''position'']"
    and s: "useStyleConfig sample_env n ps = [(''field'', VObj [(''height'', VStr ''2.5rem'')]),
                                    (''icon'', VObj [(''fontSize'', VStr ''1.25rem'')])]" for n ps
    by (simp_all add: sample_env_def)
  show ?thesis
    by (simp add: el_prop_def get_def Select_wrapper_lookup Select_field_lookup Select_rest_lookup
          Select_layoutProps_lookup Select_otherProps_lookup Select_rootProps_def
          omitThemingProps_def map_of_omit reserved_def t l s)
qed

text \<open>
  C5, amended. Take the properties that \<open>Select\<close> has left after the theming properties
  and \<open>rootProps\<close>, \<open>placeholder\<close>, \<open>icon\<close> and \<open>color\<close> are removed, \<open>rootProps\<close> being an
  object or absent and the layout list holding neither \<open>children\<close> nor \<open>__css\<close>. For every
  such property other than React's reserved names:
  \<^item> if its name is in the layout list, the wrapper has it, with the value of \<open>rootProps\<close>
    under that name when \<open>rootProps\<close> has one and the caller's value otherwise, and the
    field element does not have it;
  \<^item> if its name is not in the layout list, the field element has it with the caller's
    value, except \<open>__css\<close>, which the field element has with the theme's field style; and
    what the wrapper has under that name is what \<open>rootProps\<close> has there or else the
    wrapper's own fixed \<open>__css\<close> or \<open>className\<close>, never the caller's property.
\<close>

theorem Select_partition:
  assumes "map_of (Select_rest e props) k = Some v"
    and "k \<notin> set reserved"
    and "''children'' \<notin> set (layoutPropNames e)"
    and "''__css'' \<notin> set (layoutPropNames e)"
    and "object_or_absent (get (omitThemingProps e props) ''rootProps'')"
  shows "(k \<in> set (layoutPropNames e) \<longrightarrow>
            map_of (props_of (Select e props ref)) k
              = Some (case map_of (Select_rootProps e props) k of Some w \<Rightarrow> w | None \<Rightarrow> v) \<and>
            map_of (props_of (field_element (Select e props ref))) k = None) \<and>
         (k \<notin> set (layoutPropNames e) \<longrightarrow>
            map_of (props_of (field_element (Select e props ref))) k
              = Some (if k = ''__css'' then get (useStyleConfig e ''Select'' props) ''field'' else v) \<and>
            (k \<noteq> ''children'' \<longrightarrow>
               map_of (props_of (Select e props ref)) k
                 = (case map_of (Select_rootProps e props) k of
                      Some w \<Rightarrow> Some w
                    | None \<Rightarrow>
                       (if k = ''__css''
                        then Some (VObj [(''width'', VStr ''100%''), (''position'', VStr ''relative''),
                                         (''color'', get (omitThemingProps e props) ''color'')])
                        else if k = ''className'' then Some (VStr ''chakra-select__wrapper'')
                        else None))))"
proof -
  have p: "k \<noteq> ''placeholder''"
    using assms(1) by (auto simp: Select_rest_lookup split: if_splits)
  have c: "get props ''children'' = v" if "k = ''children''"
    using assms(1) that by (auto simp: Select_rest_lookup get_def split: if_splits)
  have layout: "map_of (props_of (Select e props ref)) k
              = Some (case map_of (Select_rootProps e props) k of Some w \<Rightarrow> w | None \<Rightarrow> v) \<and>
            map_of (props_of (field_element (Select e props ref))) k = None"
    if L: "k \<in> set (layoutPropNames e)"
  proof
    from L assms(3,4) have k: "k \<noteq> ''children''" "k \<noteq> ''__css''" by auto
    from L assms(1) have f: "map_of (Select_layoutProps e props) k = Some v"
      and s: "map_of (Select_otherProps e props) k = None"
      by (simp_all add: Select_layoutProps_lookup Select_otherProps_lookup)
    have "map_of (props_of (Select e props ref)) k
            = (case map_of (Select_rootProps e props) k of Some w \<Rightarrow> Some w | None \<Rightarrow> Some v)"
      unfolding Select_wrapper_lookup [OF k(1)] f using assms(2)
      by (cases "map_of (Select_rootProps e props) k") simp_all
    then show "map_of (props_of (Select e props ref)) k
              = Some (case map_of (Select_rootProps e props) k of Some w \<Rightarrow> w | None \<Rightarrow> v)"
      by (simp split: option.splits)
    show "map_of (props_of (field_element (Select e props ref))) k = None"
      unfolding Select_field_lookup s using k assms(2) p by simp
  qed
  have other: "map_of (props_of (field_element (Select e props ref))) k
              = Some (if k = ''__css'' then get (useStyleConfig e ''Select'' props) ''field'' else v) \<and>
            (k \<noteq> ''children'' \<longrightarrow>
               map_of (props_of (Select e props ref)) k
                 = (case map_of (Select_rootProps e props) k of
                      Some w \<Rightarrow> Some w
                    | None \<Rightarrow>
                       (if k = ''__css''
                        then Some (VObj [(''width'', VStr ''100%''), (''position'', VStr ''relative''),
                                         (''color'', get (omitThemingProps e props) ''color'')])
                        else if k = ''className'' then Some (VStr ''chakra-select__wrapper'')
                        else None)))"
    if L: "k \<notin> set (layoutPropNames e)"
  proof (intro conjI impI)
    from L assms(1) have f: "map_of (Select_layoutProps e props) k = None"
      and s: "map_of (Select_otherProps e props) k = Some v"
      by (simp_all add: Select_layoutProps_lookup Select_otherProps_lookup)
    show "map_of (props_of (field_element (Select e props ref))) k
              = Some (if k = ''__css'' then get (useStyleConfig e ''Select'' props) ''field'' else v)"
      unfolding Select_field_lookup s using assms(2) c by simp
    assume kc: "k \<noteq> ''children''"
    show "map_of (props_of (Select e props ref)) k
                 = (case map_of (Select_rootProps e props) k of
                      Some w \<Rightarrow> Some w
                    | None \<Rightarrow>
                       (if k = ''__css''
                        then Some (VObj [(''width'', VStr ''100%''), (''position'', VStr ''relative''),
                                         (''color'', get (omitThemingProps e props) ''color'')])
                        else if k = ''className'' then Some (VStr ''chakra-select__wrapper'')
                        else None))"
      unfolding Select_wrapper_lookup [OF kc] f using assms(2)
      by (cases "map_of (Select_rootProps e props) k") simp_all
  qed
  from layout other show ?thesis by blast
qed

theorem Select_partition_witness:
  "map_of (props_of (Select sample_env
       [(''width'', VStr ''50%''), (''id'', VStr ''country''),
        (''rootProps'', VObj [(''margin'', VStr ''4px'')])] VNull)) ''width'' = Some (VStr ''50%'') \<and>
   map_of (props_of (field_element (Select sample_env
       [(''width'', VStr ''50%''), (''id'', VStr ''country''),
        (''rootProps'', VObj [(''margin'', VStr ''4px'')])] VNull))) ''width'' = None \<and>
   map_of (props_of (field_element (Select sample_env
       [(''width'', VStr ''50%''), (''id'', VStr ''country''),
        (''rootProps'', VObj [(''margin'', VStr ''4px'')])] VNull))) ''id'' = Some (VStr ''country'') \<and>
   map_of (props_of (Select sample_env
       [(''width'', VStr ''50%''), (''id'', VStr ''country''),
        (''rootProps'', VObj [(''margin'', VStr ''4px'')])] VNull)) ''id'' = None"
proof -
  have t: "themingPropNames sample_env = [''styleConfig'', ''size'', ''variant'', ''colorScheme'']"
    and l: "layoutPropNames sample_env = [''width'', ''height'', ''margin'', ''position'']"
    by (simp_all add: sample_env_def)
  from Select_partition [of sample_env
         "[(''width'', VStr ''50%''), (''id'', VStr ''country''),
           (''rootProps'', VObj [(''margin'', VStr ''4px'')])]" "''width''" "VStr ''50%''" VNull]
       Select_partition [of sample_env
         "[(''width'', VStr ''50%''), (''id'', VStr ''country''),
           (''rootProps'', VObj [(''margin'', VStr ''4px'')])]" "''id''" "VStr ''country''" VNull]
  show ?thesis
    by (simp add: Select_rest_lookup Select_rootProps_def omitThemingProps_def get_def map_of_omit
          reserved_def t l)
qed

section \<open>Select: the wrapper's styling\<close>




section \<open>SelectField: the class attribute\<close>

text \<open>
  C7. For a caller-supplied \<open>className\<close> string \<open>s\<close> the class of the rendered select is
  \<open>chakra-select\<close> followed, when \<open>s\<close> is not empty, by a space and \<open>s\<close>: its tokens are the
  fixed token and then the caller's tokens. Without a \<open>className\<close> it is \<open>chakra-select\<close>.
\<close>

theorem SelectField_className:
  "(get props ''className'' = VStr s \<longrightarrow>
      el_prop (SelectField e props ref) ''className''
        = VStr (if s = [] then ''chakra-select'' else ''chakra-select'' @ '' '' @ s) \<and>
      class_tokens (class_text (el_prop (SelectField e props ref) ''className''))
        = ''chakra-select'' # class_tokens s) \<and>
   (get props ''className'' = VUndefined \<longrightarrow>
      el_prop (SelectField e props ref) ''className'' = VStr ''chakra-select'')"
proof (intro conjI impI)
  assume c: "get props ''className'' = VStr s"
  show eq: "el_prop (SelectField e props ref) ''className''
        = VStr (if s = [] then ''chakra-select'' else ''chakra-select'' @ '' '' @ s)"
    by (simp add: SelectField_className_eq c cx_def)
  show "class_tokens (class_text (el_prop (SelectField e props ref) ''className''))
        = ''chakra-select'' # class_tokens s"
  proof (cases "s = []")
    case True
    then show ?thesis by (simp add: eq class_tokens_base class_tokens_Nil)
  next
    case False
    have "class_tokens (''chakra-select'' @ CHR '' '' # s)
            = class_tokens ''chakra-select'' @ class_tokens s"
      by (rule class_tokens_append)
    with False show ?thesis by (simp add: eq class_tokens_base)
  qed
next
  assume "get props ''className'' = VUndefined"
  then show "el_prop (SelectField e props ref) ''className'' = VStr ''chakra-select''"
    by (simp add: SelectField_className_eq cx_def)
qed

theorem SelectField_className_witness:
  "el_prop (SelectField sample_env [(''className'', VStr ''foo bar'')] VNull) ''className''
     = VStr ''chakra-select foo bar'' \<and>
   class_tokens (class_text
       (el_prop (SelectField sample_env [(''className'', VStr ''foo bar'')] VNull) ''className''))
     = [''chakra-select'', ''foo'', ''bar''] \<and>
   el_prop (SelectField sample_env [] VNull) ''className'' = VStr ''chakra-select''"
  using SelectField_className [of "[(''className'', VStr ''foo bar'')]" "''foo bar''" sample_env VNull]
        SelectField_className [of "[]" "[]" sample_env VNull]
  by (simp add: get_def class_tokens_def)

section \<open>Select: iconSize and iconColor\<close>

text \<open>
  C9. \<open>Select\<close> does not take \<open>iconSize\<close> and \<open>iconColor\<close> out of its properties: when they
  are neither theming names nor layout names, the field element has them exactly as the
  caller passed them. The \<open>SelectIcon\<close> element gets the four properties \<open>data-disabled\<close>,
  \<open>children\<close>, \<open>color\<close> and \<open>__css\<close> and nothing else, so neither of the two, and the icon
  wrapper it renders has neither.
\<close>

theorem Select_icon_size_color:
  assumes "k = ''iconSize'' \<or> k = ''iconColor''"
    and "k \<notin> set (themingPropNames e)" and "k \<notin> set (layoutPropNames e)"
  shows "map_of (props_of (field_element (Select e props ref))) k = map_of props k \<and>
         map fst (props_of (icon_element (Select e props ref)))
           = [''data-disabled'', ''children'', ''color'', ''__css''] \<and>
         map_of (props_of (icon_element (Select e props ref))) k = None \<and>
         (\<forall>wrapper. render e (icon_element (Select e props ref)) = Inr wrapper \<longrightarrow>
            map_of (props_of wrapper) k = None)"
proof (intro conjI allI impI)
  from assms(1) have k: "k \<noteq> ''children''" "k \<notin> set reserved" "k \<noteq> ''__css''"
      "k \<noteq> ''placeholder''" "k \<noteq> ''className''"
      "k \<notin> {''rootProps'', ''placeholder'', ''icon'', ''color''}"
    by (auto simp: reserved_def)
  have "map_of (Select_otherProps e props) k = map_of props k"
    using assms(2,3) k(6) by (simp add: Select_otherProps_lookup Select_rest_lookup)
  then show "map_of (props_of (field_element (Select e props ref))) k = map_of props k"
    using k(1-4) by (simp add: Select_field_lookup split: option.splits)
  show "map fst (props_of (icon_element (Select e props ref)))
           = [''data-disabled'', ''children'', ''color'', ''__css'']"
    by (simp add: Select_icon_element)
  from assms(1) show n: "map_of (props_of (icon_element (Select e props ref))) k = None"
    by (auto simp: Select_icon_element)
  fix wrapper
  assume "render e (icon_element (Select e props ref)) = Inr wrapper"
  then have "SelectIcon (props_of (icon_element (Select e props ref))) = Inr wrapper"
    by (simp add: Select_icon_element render_SelectIcon)
  from SelectIcon_wrapper_lookup [OF this k(1) k(5)] n k(2)
  show "map_of (props_of wrapper) k = None"
    by simp
qed

theorem Select_icon_size_color_witness:
  "map_of (props_of (field_element
      (Select sample_env [(''iconSize'', VNum 8), (''iconColor'', VStr ''red.500'')] VNull)))
      ''iconSize'' = Some (VNum 8) \<and>
   map_of (props_of (icon_element
      (Select sample_env [(''iconSize'', VNum 8), (''iconColor'', VStr ''red.500'')] VNull)))
      ''iconSize'' = None \<and>
   (\<exists>wrapper. render sample_env (icon_element
      (Select sample_env [(''iconSize'', VNum 8), (''iconColor'', VStr ''red.500'')] VNull))
        = Inr wrapper \<and>
      map_of (props_of wrapper) ''iconSize'' = None)"
proof -
  have a: "''iconSize'' \<notin> set (themingPropNames sample_env)"
      "''iconSize'' \<notin> set (layoutPropNames sample_env)"
    by (simp_all add: sample_env_def)
  have r: "\<exists>wrapper. render sample_env (icon_element
      (Select sample_env [(''iconSize'', VNum 8), (''iconColor'', VStr ''red.500'')] VNull))
        = Inr wrapper"
    by (simp add: Select_icon_element render_SelectIcon SelectIcon_element omitThemingProps_def
          get_def map_of_omit)
  from Select_icon_size_color [of "''iconSize''" sample_env
         "[(''iconSize'', VNum 8), (''iconColor'', VStr ''red.500'')]" VNull] a r
  show ?thesis by auto
qed

section \<open>Select: the icon wrapper\<close>

text \<open>
  C10. For every property object given to \<open>Select\<close> whose \<open>icon\<close> is an element or absent,
  the second child of the wrapper renders the icon wrapper: its class is
  \<open>chakra-select__icon-wrapper\<close>, its \<open>data-disabled\<close> is the \<open>isDisabled\<close> property of
  \<open>Select\<close>, and it has exactly one child node, the caller's icon or the default glyph.
  Nothing is assumed about \<open>placeholder\<close> or \<open>children\<close>.
\<close>

theorem Select_icon_wrapper:
  assumes "get (omitThemingProps e props) ''icon'' = VUndefined \<or>
           is_element (get (omitThemingProps e props) ''icon'')"
  shows "\<exists>field icon wrapper glyph.
           el_prop (Select e props ref) ''children'' = VArr [field, icon] \<and>
           render e icon = Inr wrapper \<and>
           type_of wrapper = Some IconWrapper \<and>
           el_prop wrapper ''className'' = VStr ''chakra-select__icon-wrapper'' \<and>
           el_prop wrapper ''data-disabled'' = get props ''isDisabled'' \<and>
           child_nodes (el_prop wrapper ''children'') = [glyph] \<and>
           type_of glyph = (if get (omitThemingProps e props) ''icon'' = VUndefined
                            then Some (Component ''DefaultIcon'')
                            else type_of (get (omitThemingProps e props) ''icon''))"
proof -
  define ps where "ps = [(''data-disabled'', get props ''isDisabled''),
        (''children'', get (omitThemingProps e props) ''icon''),
        (''color'', get (omitThemingProps e props) ''color''),
        (''__css'', get (useStyleConfig e ''Select'' props) ''icon'')]"
  define icon where "icon = VElem (Component ''SelectIcon'') VNull ps"
  have i: "icon_element (Select e props ref) = icon"
    by (simp add: Select_icon_element icon_def ps_def)
  obtain field where ch: "el_prop (Select e props ref) ''children'' = VArr [field, icon]"
    using i by (simp add: Select_children icon_element_def)
  have g: "get ps ''children'' = get (omitThemingProps e props) ''icon''"
    by (simp add: ps_def get_def)
  define given where "given = (if get ps ''children'' = VUndefined
      then VElem (Component ''DefaultIcon'') VNull [] else get ps ''children'')"
  from assms obtain ty r qs where gv: "given = VElem ty r qs"
    unfolding given_def g by (cases "get (omitThemingProps e props) ''icon''") auto
  define glyph where "glyph = VElem ty r (spread qs icon_overrides)"
  define wrapper where "wrapper = createElement IconWrapper
      (jsx [Spread (VObj (omit [''children''] ps)),
            Attr ''className'' (VStr ''chakra-select__icon-wrapper''),
            Attr ''children'' glyph]) []"
  have r: "render e icon = Inr wrapper"
    using gv by (simp add: icon_def render_SelectIcon SelectIcon_element given_def [symmetric]
        wrapper_def glyph_def)
  have t: "type_of wrapper = Some IconWrapper"
    by (simp add: wrapper_def type_of_createElement)
  have c: "el_prop wrapper ''className'' = VStr ''chakra-select__icon-wrapper''"
    by (simp add: wrapper_def el_prop_def get_def IconWrapper_lookup reserved_def)
  have d: "el_prop wrapper ''data-disabled'' = get props ''isDisabled''"
    by (simp add: wrapper_def el_prop_def get_def IconWrapper_lookup reserved_def map_of_omit
          ps_def)
  have n: "child_nodes (el_prop wrapper ''children'') = [glyph]"
    by (simp add: wrapper_def el_prop_def get_def IconWrapper_lookup reserved_def glyph_def)
  have ty: "type_of glyph = (if get (omitThemingProps e props) ''icon'' = VUndefined
                            then Some (Component ''DefaultIcon'')
                            else type_of (get (omitThemingProps e props) ''icon''))"
    using gv by (auto simp: glyph_def given_def g split: if_splits)
  from ch r t c d n ty show ?thesis by blast
qed

theorem Select_icon_wrapper_witness:
  "\<exists>field icon wrapper glyph.
     el_prop (Select sample_env [(''isDisabled'', VBool True), (''placeholder'', VStr ''Choose'')]
                VNull) ''children'' = VArr [field, icon] \<and>
     render sample_env icon = Inr wrapper \<and>
     type_of wrapper = Some IconWrapper \<and>
     el_prop wrapper ''className'' = VStr ''chakra-select__icon-wrapper'' \<and>
     el_prop wrapper ''data-disabled'' = VBool True \<and>
     child_nodes (el_prop wrapper ''children'') = [glyph] \<and>
     type_of glyph = Some (Component ''DefaultIcon'')"
proof -
  have a: "get (omitThemingProps sample_env
                 [(''isDisabled'', VBool True), (''placeholder'', VStr ''Choose'')]) ''icon''
             = VUndefined"
    by (simp add: omitThemingProps_def get_def map_of_omit)
  from Select_icon_wrapper [of sample_env
         "[(''isDisabled'', VBool True), (''placeholder'', VStr ''Choose'')]" VNull] a
  show ?thesis by (simp add: get_def)
qed

end
